theory Spec2Isabelle
  imports Complex_Main "HOL-Library.Word"
begin

unbundle bit_operations_syntax

section \<open>Bytes, strings and the hash primitives of the runtime\<close>

text \<open>
  A Node \<open>Buffer\<close> or \<open>Uint8Array\<close> is a list of bytes. A JavaScript string is a
  \<open>string\<close>: one \<open>char\<close> per code unit, for the code units below 256 (every
  identifier, hex digest and base58 key of the program is such a string).
\<close>

type_synonym byte = "8 word"

datatype error = RangeError | TypeError | RpcError | JsonError | RateLimitExceeded

text \<open>\<open>Buffer.from(s, 'utf-8')\<close>: one byte below 128, two bytes from 128 to 255.\<close>

definition utf8 :: "string \<Rightarrow> byte list" where
  "utf8 s =
     concat (map (\<lambda>c. let n = (of_char c :: nat)
                      in if n < 128 then [of_nat n]
                         else [of_nat (192 + n div 64), of_nat (128 + n mod 64)]) s)"

text \<open>
  SHA-256 (FIPS 180-4), the digest behind \<open>crypto.createHash('sha256')\<close>. The 32-bit
  words are integers with the wrap-around written out.
\<close>

definition K256 :: "int list" where
  "K256 =
   [1116352408, 1899447441, 3049323471, 3921009573, 961987163, 1508970993,
    2453635748, 2870763221, 3624381080, 310598401, 607225278, 1426881987,
    1925078388, 2162078206, 2614888103, 3248222580, 3835390401, 4022224774,
    264347078, 604807628, 770255983, 1249150122, 1555081692, 1996064986,
    2554220882, 2821834349, 2952996808, 3210313671, 3336571891, 3584528711,
    113926993, 338241895, 666307205, 773529912, 1294757372, 1396182291,
    1695183700, 1986661051, 2177026350, 2456956037, 2730485921, 2820302411,
    3259730800, 3345764771, 3516065817, 3600352804, 4094571909, 275423344,
    430227734, 506948616, 659060556, 883997877, 958139571, 1322822218,
    1537002063, 1747873779, 1955562222, 2024104815, 2227730452, 2361852424,
    2428436474, 2756734187, 3204031479, 3329325298]"

definition H256 :: "int list" where
  "H256 = [1779033703, 3144134277, 1013904242, 2773480762,
           1359893119, 2600822924, 528734635, 1541459225]"

definition add32 :: "int \<Rightarrow> int \<Rightarrow> int" where
  "add32 x y = (x + y) mod 4294967296"

definition rotr :: "nat \<Rightarrow> int \<Rightarrow> int" where
  "rotr n x = x div 2 ^ n + (x mod 2 ^ n) * 2 ^ (32 - n)"

definition Ch :: "int \<Rightarrow> int \<Rightarrow> int \<Rightarrow> int" where
  "Ch x y z = (x AND y) XOR ((4294967295 - x) AND z)"

definition Maj :: "int \<Rightarrow> int \<Rightarrow> int \<Rightarrow> int" where
  "Maj x y z = (x AND y) XOR (x AND z) XOR (y AND z)"

definition bsig0 :: "int \<Rightarrow> int" where
  "bsig0 x = rotr 2 x XOR rotr 13 x XOR rotr 22 x"

definition bsig1 :: "int \<Rightarrow> int" where
  "bsig1 x = rotr 6 x XOR rotr 11 x XOR rotr 25 x"

definition ssig0 :: "int \<Rightarrow> int" where
  "ssig0 x = rotr 7 x XOR rotr 18 x XOR x div 2 ^ 3"

definition ssig1 :: "int \<Rightarrow> int" where
  "ssig1 x = rotr 17 x XOR rotr 19 x XOR x div 2 ^ 10"

fun be_int :: "int \<Rightarrow> byte list \<Rightarrow> int" where
  "be_int acc [] = acc"
| "be_int acc (b # bs) = be_int (acc * 256 + uint b) bs"

fun be_bytes :: "nat \<Rightarrow> int \<Rightarrow> byte list \<Rightarrow> byte list" where
  "be_bytes 0 x acc = acc"
| "be_bytes (Suc n) x acc = be_bytes n (x div 256) (word_of_int (x mod 256) # acc)"

definition sha_pad :: "byte list \<Rightarrow> byte list" where
  "sha_pad m =
     m @ [128] @ replicate ((119 - length m mod 64) mod 64) 0
       @ be_bytes 8 (8 * int (length m)) []"

fun chunks :: "nat \<Rightarrow> nat \<Rightarrow> 'a list \<Rightarrow> 'a list list" where
  "chunks 0 k xs = []"
| "chunks (Suc n) k xs = take k xs # chunks n k (drop k xs)"

text \<open>The message schedule is kept newest first: the head is \<open>W (t - 1)\<close>.\<close>

fun schedule :: "nat \<Rightarrow> int list \<Rightarrow> int list" where
  "schedule 0 ws = ws"
| "schedule (Suc n) ws =
     schedule n
       (add32 (add32 (ssig1 (ws ! 1)) (ws ! 6)) (add32 (ssig0 (ws ! 14)) (ws ! 15)) # ws)"

fun rounds :: "int list \<Rightarrow> int list \<Rightarrow> int list \<Rightarrow> int list" where
  "rounds [a, b, c, d, e, f, g, h] (k # ks) (w # ws) =
     (let t1 = add32 (add32 (add32 h (bsig1 e)) (add32 (Ch e f g) k)) w;
          t2 = add32 (bsig0 a) (Maj a b c)
      in rounds [add32 t1 t2, a, b, c, add32 d t1, e, f, g] ks ws)"
| "rounds s _ _ = s"

definition compress :: "int list \<Rightarrow> byte list \<Rightarrow> int list" where
  "compress hs blk =
     map2 add32 hs
       (rounds hs K256 (rev (schedule 48 (rev (map (be_int 0) (chunks 16 4 blk))))))"

definition sha256 :: "byte list \<Rightarrow> byte list" where
  "sha256 m =
     (let p = sha_pad m
      in concat (map (\<lambda>w. be_bytes 4 w [])
                   (foldl compress H256 (chunks (length p div 64) 64 p))))"

definition hexdigit :: "nat \<Rightarrow> char" where
  "hexdigit n = ''0123456789abcdef'' ! n"

text \<open>\<open>digest('hex')\<close>: two lower-case hex digits per byte.\<close>

definition toHex :: "byte list \<Rightarrow> string" where
  "toHex bs = concat (map (\<lambda>b. [hexdigit (unat b div 16), hexdigit (unat b mod 16)]) bs)"

text \<open>
  A \<open>Hash\<close> object is the list of the bytes fed to it so far: \<open>update\<close> appends,
  \<open>digest('hex')\<close> hashes the whole.
\<close>

definition createHash :: "byte list" where
  "createHash = []"

definition update :: "byte list \<Rightarrow> byte list \<Rightarrow> byte list" where
  "update h bs = h @ bs"

definition digest_hex :: "byte list \<Rightarrow> string" where
  "digest_hex h = toHex (sha256 h)"

section \<open>The prover's commitment hash (lib/noir/prover.ts)\<close>

fun le_bytes :: "nat \<Rightarrow> int \<Rightarrow> byte list" where
  "le_bytes 0 v = []"
| "le_bytes (Suc n) v = word_of_int (v mod 256) # le_bytes n (v div 256)"

text \<open>\<open>buf.writeBigUInt64LE(v)\<close> on a fresh 8-byte buffer; out of range it throws.\<close>

definition writeBigUInt64LE :: "int \<Rightarrow> error + byte list" where
  "writeBigUInt64LE v =
     (if 0 \<le> v \<and> v < 18446744073709551616 then Inr (le_bytes 8 v) else Inl RangeError)"

definition generateCommitmentHash :: "int \<Rightarrow> byte list \<Rightarrow> string \<Rightarrow> error + string" where
  "generateCommitmentHash bidAmount salt bidderPubkey =
     (case writeBigUInt64LE bidAmount of
        Inl e \<Rightarrow> Inl e
      | Inr amountBuffer \<Rightarrow>
          Inr (digest_hex
                 (update (update (update createHash amountBuffer) salt) (utf8 bidderPubkey))))"

text \<open>
  The commitment as the specification words it: SHA-256 of the amount as an 8-byte
  little-endian unsigned integer, then the salt, then the UTF-8 bytes of the key.
\<close>

definition uint64_le :: "int \<Rightarrow> byte list" where
  "uint64_le v = map (\<lambda>i. word_of_int (v div 256 ^ i)) [0..<8]"

definition commitment_spec :: "int \<Rightarrow> byte list \<Rightarrow> string \<Rightarrow> string" where
  "commitment_spec amount salt key = toHex (sha256 (uint64_le amount @ salt @ utf8 key))"

definition salt0 :: "byte list" where
  "salt0 = replicate 32 0"

section \<open>Transaction builders (lib/solana/transactions.ts)\<close>

text \<open>
  \<open>source.copy(target, targetStart)\<close>: the bytes that fit are written, the rest are
  dropped without an error; the target keeps its length.
\<close>

definition copy_into :: "byte list \<Rightarrow> byte list \<Rightarrow> nat \<Rightarrow> byte list" where
  "copy_into src tgt targetStart =
     take targetStart tgt @ take (length tgt - targetStart) src
       @ drop (targetStart + length src) tgt"

text \<open>\<open>buf.writeUInt32LE(value, offset)\<close> throws when the value or the offset is out of range.\<close>

definition writeUInt32LE :: "nat \<Rightarrow> nat \<Rightarrow> byte list \<Rightarrow> error + byte list" where
  "writeUInt32LE v off buf =
     (if int v < 4294967296 \<and> off + 4 \<le> length buf
      then Inr (copy_into (le_bytes 4 (int v)) buf off)
      else Inl RangeError)"

definition SUBMIT_BID :: "byte list" where
  "SUBMIT_BID = [1]"

record account_meta =
  pubkey :: string
  isSigner :: bool
  isWritable :: bool

record instruction =
  keys :: "account_meta list"
  programId :: string
  data :: "byte list"

record transaction =
  recentBlockhash :: string
  feePayer :: string
  instructions :: "instruction list"

record submit_bid_params =
  auctionId :: string
  bidder :: string
  commitmentHash :: "byte list"
  proofBuf :: "byte list"
  proofHash :: "byte list"
  paymentMint :: string
  collateralAmount :: real

text \<open>
  What the builders take from the ledger libraries and the RPC connection: the latest
  blockhash (the call may fail), program-address derivation, the bytes of a key, the
  associated token address (it throws for an owner off the curve) and the program id.
\<close>

record chain_env =
  getRecentBlockhash :: "error + string"
  findProgramAddressSync :: "byte list list \<Rightarrow> string \<Rightarrow> string"
  toBuffer :: "string \<Rightarrow> byte list"
  getAssociatedTokenAddress :: "string \<Rightarrow> string \<Rightarrow> error + string"
  PRIVATE_AUCTION_PROGRAM_ID :: string

definition SystemProgram_programId :: string where
  "SystemProgram_programId = ''11111111111111111111111111111111''"

definition TOKEN_PROGRAM_ID :: string where
  "TOKEN_PROGRAM_ID = ''TokenkegQfeZyiNwAJbNbGKPFXCWuBvf9Ss623VQ5DA''"

definition ComputeBudget_programId :: string where
  "ComputeBudget_programId = ''ComputeBudget111111111111111111111111111111''"

datatype priority_level = low | medium | high

fun priorityFees :: "priority_level \<Rightarrow> int" where
  "priorityFees low = 10000"
| "priorityFees medium = 50000"
| "priorityFees high = 200000"

text \<open>\<open>transaction.instructions.unshift(computeBudgetIx, computeLimitIx)\<close>.\<close>

definition addPriorityFee :: "transaction \<Rightarrow> priority_level \<Rightarrow> transaction" where
  "addPriorityFee tx priorityLevel =
     (let computeBudgetIx =
            \<lparr>keys = [], programId = ComputeBudget_programId,
             data = [3] @ le_bytes 8 (priorityFees priorityLevel)\<rparr>;
          computeLimitIx =
            \<lparr>keys = [], programId = ComputeBudget_programId,
             data = [2] @ le_bytes 4 400000\<rparr>
      in tx\<lparr>instructions := computeBudgetIx # computeLimitIx # instructions tx\<rparr>)"

text \<open>
  The instruction data of a bid submission: a zeroed buffer of 256 bytes, written at a
  running offset, and cut at the final offset (\<open>subarray\<close> stops at the buffer's end).
\<close>

definition submitBidData :: "submit_bid_params \<Rightarrow> error + byte list" where
  "submitBidData params =
     (let data0 = replicate 256 0;
          offset0 = 0;
          data1 = copy_into SUBMIT_BID data0 offset0;
          offset1 = offset0 + 1;
          data2 = copy_into (commitmentHash params) data1 offset1;
          offset2 = offset1 + 32;
          data3 = copy_into (proofHash params) data2 offset2;
          offset3 = offset2 + 32
      in case writeUInt32LE (length (proofBuf params)) offset3 data3 of
           Inl e \<Rightarrow> Inl e
         | Inr data4 \<Rightarrow>
             (let offset4 = offset3 + 4;
                  data5 = copy_into (proofBuf params) data4 offset4;
                  offset5 = offset4 + length (proofBuf params)
              in Inr (take offset5 data5)))"

definition buildSubmitBidTransaction ::
    "chain_env \<Rightarrow> submit_bid_params \<Rightarrow> error + transaction" where
  "buildSubmitBidTransaction env params =
     (case getRecentBlockhash env of
        Inl e \<Rightarrow> Inl e
      | Inr blockhash \<Rightarrow>
          (let prog = PRIVATE_AUCTION_PROGRAM_ID env;
               bidPDA = findProgramAddressSync env
                          [utf8 ''bid'', toBuffer env (auctionId params),
                           toBuffer env (bidder params)] prog;
               escrowPDA = findProgramAddressSync env
                          [utf8 ''escrow'', toBuffer env (auctionId params)] prog;
               collateralPoolPDA = findProgramAddressSync env
                          [utf8 ''collateral_pool'', toBuffer env (paymentMint params)] prog
           in case getAssociatedTokenAddress env (paymentMint params) (bidder params) of
                Inl e \<Rightarrow> Inl e
              | Inr bidderTokenAccount \<Rightarrow>
                  (case submitBidData params of
                     Inl e \<Rightarrow> Inl e
                   | Inr d \<Rightarrow>
                       (let ix =
                          \<lparr>keys =
                             [\<lparr>pubkey = auctionId params, isSigner = False, isWritable = True\<rparr>,
                              \<lparr>pubkey = bidPDA, isSigner = False, isWritable = True\<rparr>,
                              \<lparr>pubkey = bidder params, isSigner = True, isWritable = True\<rparr>,
                              \<lparr>pubkey = bidderTokenAccount, isSigner = False, isWritable = True\<rparr>,
                              \<lparr>pubkey = escrowPDA, isSigner = False, isWritable = True\<rparr>,
                              \<lparr>pubkey = collateralPoolPDA, isSigner = False, isWritable = True\<rparr>,
                              \<lparr>pubkey = SystemProgram_programId, isSigner = False,
                               isWritable = False\<rparr>,
                              \<lparr>pubkey = TOKEN_PROGRAM_ID, isSigner = False, isWritable = False\<rparr>],
                           programId = prog,
                           data = d\<rparr>;
                            tx = \<lparr>recentBlockhash = blockhash, feePayer = bidder params,
                                  instructions = [ix]\<rparr>
                        in Inr (addPriorityFee tx medium)))))"

section \<open>The connection pool (lib/solana/connection.ts)\<close>

datatype endpoint = Primary | Fallback

record pool =
  currentConnection :: endpoint
  consecutiveFailures :: nat

text \<open>The class declares the threshold; no method reads it.\<close>

definition maxFailures :: nat where
  "maxFailures = 3"

definition newPool :: pool where
  "newPool = \<lparr>currentConnection = Primary, consecutiveFailures = 0\<rparr>"

definition getConnection :: "pool \<Rightarrow> endpoint" where
  "getConnection p = currentConnection p"

text \<open>
  A probe says, for each endpoint, whether \<open>getSlot\<close> answers (\<open>True\<close>) or throws
  at this moment. \<open>checkHealth\<close> probes the current connection.
\<close>

definition checkHealth :: "(endpoint \<Rightarrow> bool) \<Rightarrow> pool \<Rightarrow> bool \<times> pool" where
  "checkHealth getSlot p =
     (if getSlot (currentConnection p)
      then (True, p\<lparr>consecutiveFailures := 0\<rparr>)
      else (False, p\<lparr>consecutiveFailures := consecutiveFailures p + 1\<rparr>))"

definition switchToFallback :: "pool \<Rightarrow> pool" where
  "switchToFallback p = p\<lparr>currentConnection := Fallback, consecutiveFailures := 0\<rparr>"

definition tryPrimary :: "(endpoint \<Rightarrow> bool) \<Rightarrow> pool \<Rightarrow> pool" where
  "tryPrimary getSlot p =
     (if getSlot Primary then p\<lparr>currentConnection := Primary\<rparr> else p)"

text \<open>One run of the callback that \<open>startHealthCheck\<close> installs with \<open>setInterval\<close>.\<close>

definition healthTick :: "(endpoint \<Rightarrow> bool) \<Rightarrow> pool \<Rightarrow> pool" where
  "healthTick getSlot p =
     (case checkHealth getSlot p of
        (healthy, p1) \<Rightarrow>
          if \<not> healthy \<and> currentConnection p1 = Primary then switchToFallback p1
          else if healthy \<and> currentConnection p1 = Fallback then tryPrimary getSlot p1
          else p1)"

fun healthTicks :: "(endpoint \<Rightarrow> bool) list \<Rightarrow> pool \<Rightarrow> pool" where
  "healthTicks [] p = p"
| "healthTicks (g # gs) p = healthTicks gs (healthTick g p)"











section \<open>Rate limiting (lib/rate-limit.ts)\<close>

datatype limiter_kind = bidSubmission | auctionCreation | proofVerification | apiRequest

record ratelimit =
  tokens :: nat
  window_ms :: int
  prefix :: string

text \<open>The four limiters: \<open>Ratelimit.slidingWindow(n, w)\<close> with its key prefix.\<close>

fun rateLimiters :: "limiter_kind \<Rightarrow> ratelimit" where
  "rateLimiters bidSubmission = \<lparr>tokens = 10, window_ms = 60000, prefix = ''ratelimit:bid''\<rparr>"
| "rateLimiters auctionCreation = \<lparr>tokens = 5, window_ms = 3600000, prefix = ''ratelimit:auction''\<rparr>"
| "rateLimiters proofVerification = \<lparr>tokens = 100, window_ms = 60000, prefix = ''ratelimit:proof''\<rparr>"
| "rateLimiters apiRequest = \<lparr>tokens = 100, window_ms = 60000, prefix = ''ratelimit:api''\<rparr>"

record limit_result =
  success :: bool
  limit :: nat
  remaining :: nat
  reset :: int

text \<open>The shared counter store: per key, the times (ms) of the requests admitted.\<close>

type_synonym redis = "string \<Rightarrow> int list"

text \<open>
  Modelled from the spec: \<open>limiter.limit(identifier)\<close> of the rate-limiting package, which
  is not part of the sources. A sliding window of \<open>tokens\<close> requests per \<open>window_ms\<close>:
  a request at time \<open>now\<close> is admitted, and counted, when fewer than \<open>tokens\<close> requests
  of the same key were admitted within the last \<open>window_ms\<close> milliseconds.
\<close>

definition limit_call :: "ratelimit \<Rightarrow> string \<Rightarrow> int \<Rightarrow> redis \<Rightarrow> limit_result \<times> redis" where
  "limit_call rl identifier now store =
     (let key = prefix rl @ '':'' @ identifier;
          recent = filter (\<lambda>t. now - window_ms rl < t) (store key)
      in if length recent < tokens rl
         then (\<lparr>success = True, limit = tokens rl,
                remaining = tokens rl - length recent - 1, reset = now + window_ms rl\<rparr>,
               store(key := recent @ [now]))
         else (\<lparr>success = False, limit = tokens rl, remaining = 0,
                reset = now + window_ms rl\<rparr>,
               store(key := recent)))"

text \<open>\<open>checkRateLimit(identifier, type = 'apiRequest')\<close>: it throws when the limiter refuses.\<close>

definition checkRateLimit ::
    "string \<Rightarrow> limiter_kind option \<Rightarrow> int \<Rightarrow> redis \<Rightarrow> (error + limit_result) \<times> redis" where
  "checkRateLimit identifier type now store =
     (let limiter = rateLimiters (case type of None \<Rightarrow> apiRequest | Some t \<Rightarrow> t)
      in case limit_call limiter identifier now store of
           (r, store') \<Rightarrow>
             if \<not> success r then (Inl RateLimitExceeded, store') else (Inr r, store'))"

text \<open>
  The rate-limiting step of the bid-submission route: the key names the user and the
  auction, and \<open>checkRateLimit\<close> is called with the key alone.
\<close>

definition bidRateLimit :: "string \<Rightarrow> string \<Rightarrow> int \<Rightarrow> redis \<Rightarrow> (error + limit_result) \<times> redis" where
  "bidRateLimit userId auction_id now store =
     (let rateLimitKey = ''bid:'' @ userId @ '':'' @ auction_id
      in checkRateLimit rateLimitKey None now store)"

definition admitted :: "error + 'a \<Rightarrow> bool" where
  "admitted r = (case r of Inl e \<Rightarrow> False | Inr v \<Rightarrow> True)"

text \<open>Consecutive submissions by one user on one auction: which of them pass the step.\<close>

fun bidRateLimitRun :: "string \<Rightarrow> string \<Rightarrow> int list \<Rightarrow> redis \<Rightarrow> bool list" where
  "bidRateLimitRun userId auction_id [] store = []"
| "bidRateLimitRun userId auction_id (now # later) store =
     (case bidRateLimit userId auction_id now store of
        (r, store') \<Rightarrow> admitted r # bidRateLimitRun userId auction_id later store')"

text \<open>The same run under the limiter declared for bid submissions.\<close>

fun bidSubmissionLimiterRun :: "string \<Rightarrow> int list \<Rightarrow> redis \<Rightarrow> bool list" where
  "bidSubmissionLimiterRun key [] store = []"
| "bidSubmissionLimiterRun key (now # later) store =
     (case checkRateLimit key (Some bidSubmission) now store of
        (r, store') \<Rightarrow> admitted r # bidSubmissionLimiterRun key later store')"

definition no_requests :: redis where
  "no_requests = (\<lambda>key. [])"

definition eleven_seconds :: "int list" where
  "eleven_seconds = [0, 1000, 2000, 3000, 4000, 5000, 6000, 7000, 8000, 9000, 10000]"

section \<open>The mirror: tables and queries\<close>

text \<open>
  The columns of the tables that the routes and the webhook handlers read or write. An
  auction's \<open>on_chain_id\<close> is null until its creation is confirmed; a bid's
  \<open>auction_id\<close> holds the auction's on-chain id, as the bid route stores it.
\<close>

record auction_row =
  a_seller_id :: string
  a_on_chain_id :: "string option"
  a_status :: string
  a_bid_count :: int
  a_created_at :: int
  a_ends_at :: int
  a_product_type :: string
  a_payment_mint :: "string option"

record bid_row =
  b_id :: nat
  b_auction_id :: string
  b_bidder_id :: string
  b_commitment_hash :: string
  b_on_chain_id :: "string option"
  b_revealed :: bool
  b_amount :: "int option"
  b_timestamp :: int

record user_row =
  u_id :: string
  u_privy_id :: string
  u_wallet_addresses :: "string list"

record fulfillment_row =
  f_auction_id :: string
  f_buyer_id :: string
  f_seller_id :: string
  f_status :: string

record db =
  auctions :: "auction_row list"
  bids :: "bid_row list"
  users :: "user_row list"
  fulfillments :: "fulfillment_row list"

text \<open>
  A query or an update of the store is taken to succeed, except where a route answers for
  its failure and a parameter says whether it fails.
\<close>

text \<open>\<open>.single()\<close>: the row when the query selects exactly one, null otherwise.\<close>

definition single_row :: "'a list \<Rightarrow> 'a option" where
  "single_row xs = (case xs of [x] \<Rightarrow> Some x | _ \<Rightarrow> None)"

text \<open>\<open>.update(...)\<close> under filters: every selected row is rewritten.\<close>

definition update_where :: "('a \<Rightarrow> bool) \<Rightarrow> ('a \<Rightarrow> 'a) \<Rightarrow> 'a list \<Rightarrow> 'a list" where
  "update_where sel upd rows = map (\<lambda>r. if sel r then upd r else r) rows"

text \<open>An update limited to one row: the first selected row is rewritten.\<close>

fun update_first :: "('a \<Rightarrow> bool) \<Rightarrow> ('a \<Rightarrow> 'a) \<Rightarrow> 'a list \<Rightarrow> 'a list" where
  "update_first sel upd [] = []"
| "update_first sel upd (r # rows) =
     (if sel r then upd r # rows else r # update_first sel upd rows)"

datatype body =
    ErrorBody string
  | SuccessBody
  | AuctionBody auction_row
  | BidBody nat string

record response =
  http_status :: nat
  http_body :: body

section \<open>The webhook route (api/webhooks/helius/route.ts)\<close>

text \<open>HMAC-SHA256 (RFC 2104), the digest behind \<open>crypto.createHmac('sha256', key)\<close>.\<close>

definition hmac_key_block :: "byte list \<Rightarrow> byte list" where
  "hmac_key_block key =
     (let k = (if 64 < length key then sha256 key else key)
      in k @ replicate (64 - length k) 0)"

definition hmac_sha256 :: "byte list \<Rightarrow> byte list \<Rightarrow> byte list" where
  "hmac_sha256 key msg =
     (let kb = hmac_key_block key
      in sha256 (map (\<lambda>b. b XOR 92) kb @ sha256 (map (\<lambda>b. b XOR 54) kb @ msg)))"

text \<open>\<open>crypto.timingSafeEqual\<close> throws unless both buffers have the same byte length.\<close>

definition timingSafeEqual :: "byte list \<Rightarrow> byte list \<Rightarrow> error + bool" where
  "timingSafeEqual a b = (if length a \<noteq> length b then Inl RangeError else Inr (a = b))"

definition verifySignature :: "string \<Rightarrow> string \<Rightarrow> string \<Rightarrow> error + bool" where
  "verifySignature secret payload signature =
     (let expectedSignature = toHex (hmac_sha256 (utf8 secret) (utf8 payload))
      in timingSafeEqual (utf8 signature) (utf8 expectedSignature))"

text \<open>
  The payload of an event, by the fields that a handler reads. No handler reads the salt
  that a reveal discloses; the field stands for it in the payload.
\<close>

record account_data =
  d_auctionPubkey :: string
  d_seller :: string
  d_auctionId :: string
  d_bidId :: string
  d_commitmentHash :: string
  d_amount :: int
  d_salt :: "byte list"
  d_winner :: string
  d_settlementAmount :: int

record webhook_event =
  e_type :: string
  e_accountData :: "account_data option"

text \<open>
  Every handler runs in a \<open>try\<close> that logs and swallows: an event without payload makes
  the first field access throw, and the mirror stays as it is.
\<close>

definition latest_created_at :: "auction_row list \<Rightarrow> int" where
  "latest_created_at rows = fold max (map a_created_at rows) (a_created_at (hd rows))"

definition handleAuctionCreated :: "account_data option \<Rightarrow> db \<Rightarrow> db" where
  "handleAuctionCreated accountData d =
     (case accountData of
        None \<Rightarrow> d
      | Some ev \<Rightarrow>
          (let sel = (\<lambda>a. a_seller_id a = d_seller ev \<and> a_status a = ''pending'');
               cand = filter sel (auctions d)
           in if cand = [] then d
              else d\<lparr>auctions :=
                     update_first (\<lambda>a. sel a \<and> a_created_at a = latest_created_at cand)
                       (\<lambda>a. a\<lparr>a_on_chain_id := Some (d_auctionPubkey ev), a_status := ''active''\<rparr>)
                       (auctions d)\<rparr>))"

text \<open>
  Modelled from the spec: the stored procedure \<open>increment_bid_count\<close>, which is not part
  of the sources: it adds one to the bid count of the auction with the given on-chain id.
\<close>

definition increment_bid_count :: "string \<Rightarrow> auction_row list \<Rightarrow> auction_row list" where
  "increment_bid_count auction_on_chain_id rows =
     update_where (\<lambda>a. a_on_chain_id a = Some auction_on_chain_id)
       (\<lambda>a. a\<lparr>a_bid_count := a_bid_count a + 1\<rparr>) rows"

definition handleBidSubmitted :: "account_data option \<Rightarrow> db \<Rightarrow> db" where
  "handleBidSubmitted accountData d =
     (case accountData of
        None \<Rightarrow> d
      | Some ev \<Rightarrow>
          d\<lparr>bids :=
              update_where
                (\<lambda>b. b_commitment_hash b = d_commitmentHash ev \<and> b_auction_id b = d_auctionId ev)
                (\<lambda>b. b\<lparr>b_on_chain_id := Some (d_bidId ev)\<rparr>) (bids d),
            auctions := increment_bid_count (d_auctionId ev) (auctions d)\<rparr>)"

definition handleBidRevealed :: "account_data option \<Rightarrow> db \<Rightarrow> db" where
  "handleBidRevealed accountData d =
     (case accountData of
        None \<Rightarrow> d
      | Some ev \<Rightarrow>
          d\<lparr>bids :=
              update_where (\<lambda>b. b_on_chain_id b = Some (d_bidId ev))
                (\<lambda>b. b\<lparr>b_revealed := True, b_amount := Some (d_amount ev)\<rparr>) (bids d)\<rparr>)"

text \<open>
  The table definitions are not part of the sources: whether the fulfillments table admits
  a second row for an auction is a parameter, \<open>one_per_auction\<close>. Where it does not,
  the second insert fails; the handler logs the error and goes on.
\<close>

definition insert_fulfillment ::
    "bool \<Rightarrow> fulfillment_row \<Rightarrow> fulfillment_row list \<Rightarrow> fulfillment_row list" where
  "insert_fulfillment one_per_auction row rows =
     (if one_per_auction \<and> f_auction_id row \<in> set (map f_auction_id rows) then rows
      else rows @ [row])"

definition handleAuctionSettled :: "bool \<Rightarrow> account_data option \<Rightarrow> db \<Rightarrow> db" where
  "handleAuctionSettled one_per_auction accountData d =
     (case accountData of
        None \<Rightarrow> d
      | Some ev \<Rightarrow>
          (let d1 = d\<lparr>auctions :=
                       update_where (\<lambda>a. a_on_chain_id a = Some (d_auctionId ev))
                         (\<lambda>a. a\<lparr>a_status := ''settled''\<rparr>) (auctions d)\<rparr>;
               auction = single_row
                           (filter (\<lambda>a. a_on_chain_id a = Some (d_auctionId ev)) (auctions d1));
               winnerUser = single_row
                           (filter (\<lambda>u. d_winner ev \<in> set (u_wallet_addresses u)) (users d1))
           in case (auction, winnerUser) of
                (Some a, Some w) \<Rightarrow>
                  d1\<lparr>fulfillments :=
                        insert_fulfillment one_per_auction
                          \<lparr>f_auction_id = d_auctionId ev, f_buyer_id = u_id w,
                           f_seller_id = a_seller_id a, f_status = ''pending''\<rparr>
                          (fulfillments d1)\<rparr>
              | _ \<Rightarrow> d1))"

text \<open>The \<open>switch\<close> on the event type.\<close>

definition dispatch :: "bool \<Rightarrow> webhook_event \<Rightarrow> db \<Rightarrow> db" where
  "dispatch one_per_auction event d =
     (if e_type event = ''AUCTION_CREATED'' then handleAuctionCreated (e_accountData event) d
      else if e_type event = ''BID_SUBMITTED'' then handleBidSubmitted (e_accountData event) d
      else if e_type event = ''BID_REVEALED'' then handleBidRevealed (e_accountData event) d
      else if e_type event = ''AUCTION_SETTLED'' then
        handleAuctionSettled one_per_auction (e_accountData event) d
      else d)"

fun processEvents :: "bool \<Rightarrow> webhook_event list \<Rightarrow> db \<Rightarrow> db" where
  "processEvents one_per_auction [] d = d"
| "processEvents one_per_auction (event # events) d =
     processEvents one_per_auction events (dispatch one_per_auction event d)"

text \<open>
  The request: the raw body and the \<open>x-helius-signature\<close> header, if any.
  \<open>JSON.parse\<close> is a parameter: it gives the events of a body, or throws.
\<close>

record webhook_request =
  w_body :: string
  w_signature :: "string option"

definition POST_webhook ::
    "bool \<Rightarrow> string \<Rightarrow> (string \<Rightarrow> webhook_event list option) \<Rightarrow> webhook_request \<Rightarrow> db
       \<Rightarrow> response \<times> db" where
  "POST_webhook one_per_auction secret parse request d =
     (case w_signature request of
        None \<Rightarrow> (\<lparr>http_status = 401, http_body = ErrorBody ''Missing signature''\<rparr>, d)
      | Some signature \<Rightarrow>
          if signature = [] then
            (\<lparr>http_status = 401, http_body = ErrorBody ''Missing signature''\<rparr>, d)
          else
            (case verifySignature secret (w_body request) signature of
               Inl e \<Rightarrow> (\<lparr>http_status = 500, http_body = ErrorBody ''Internal server error''\<rparr>, d)
             | Inr False \<Rightarrow> (\<lparr>http_status = 401, http_body = ErrorBody ''Invalid signature''\<rparr>, d)
             | Inr True \<Rightarrow>
                 (case parse (w_body request) of
                    None \<Rightarrow>
                      (\<lparr>http_status = 500, http_body = ErrorBody ''Internal server error''\<rparr>, d)
                  | Some events \<Rightarrow>
                      (\<lparr>http_status = 200, http_body = SuccessBody\<rparr>,
                       processEvents one_per_auction events d))))"

section \<open>The auction route (api/auctions/[id]/route.ts)\<close>

definition reply :: "nat \<Rightarrow> string \<Rightarrow> response" where
  "reply code msg = \<lparr>http_status = code, http_body = ErrorBody msg\<rparr>"

text \<open>The JSON body of a PATCH: for each column, the new value if the body names it.\<close>

record auction_updates =
  up_seller_id :: "string option"
  up_on_chain_id :: "string option option"
  up_status :: "string option"
  up_bid_count :: "int option"
  up_created_at :: "int option"
  up_ends_at :: "int option"
  up_product_type :: "string option"
  up_payment_mint :: "string option option"

definition apply_updates :: "auction_updates \<Rightarrow> auction_row \<Rightarrow> auction_row" where
  "apply_updates u a =
     \<lparr>a_seller_id = (case up_seller_id u of None \<Rightarrow> a_seller_id a | Some v \<Rightarrow> v),
      a_on_chain_id = (case up_on_chain_id u of None \<Rightarrow> a_on_chain_id a | Some v \<Rightarrow> v),
      a_status = (case up_status u of None \<Rightarrow> a_status a | Some v \<Rightarrow> v),
      a_bid_count = (case up_bid_count u of None \<Rightarrow> a_bid_count a | Some v \<Rightarrow> v),
      a_created_at = (case up_created_at u of None \<Rightarrow> a_created_at a | Some v \<Rightarrow> v),
      a_ends_at = (case up_ends_at u of None \<Rightarrow> a_ends_at a | Some v \<Rightarrow> v),
      a_product_type = (case up_product_type u of None \<Rightarrow> a_product_type a | Some v \<Rightarrow> v),
      a_payment_mint = (case up_payment_mint u of None \<Rightarrow> a_payment_mint a | Some v \<Rightarrow> v)\<rparr>"

text \<open>
  \<open>updates\<close> is \<open>None\<close> when the body is not JSON (\<open>request.json()\<close> throws);
  \<open>session\<close> is the id of the session's user; \<open>updateError\<close> says whether the
  store refuses the update. The seller is joined through the foreign key; without the
  joined row the access to its \<open>privy_id\<close> throws.
\<close>

definition PATCH ::
    "bool \<Rightarrow> string \<Rightarrow> auction_updates option \<Rightarrow> string option \<Rightarrow> db \<Rightarrow> response \<times> db" where
  "PATCH updateError auction_id updates session d =
     (case updates of
        None \<Rightarrow> (reply 500 ''Internal server error'', d)
      | Some u \<Rightarrow>
     (case session of
        None \<Rightarrow> (reply 401 ''Unauthorized'', d)
      | Some sessionUser \<Rightarrow>
     (case single_row (filter (\<lambda>a. a_on_chain_id a = Some auction_id) (auctions d)) of
        None \<Rightarrow> (reply 404 ''Auction not found'', d)
      | Some auction \<Rightarrow>
     (case find (\<lambda>w. u_id w = a_seller_id auction) (users d) of
        None \<Rightarrow> (reply 500 ''Internal server error'', d)
      | Some owner \<Rightarrow>
          if u_privy_id owner \<noteq> sessionUser then (reply 403 ''Forbidden'', d)
          else if a_status auction \<noteq> ''pending'' \<and> a_status auction \<noteq> ''active''
          then (reply 400 ''Auction cannot be modified'', d)
          else if updateError then (reply 500 ''Failed to update auction'', d)
          else
            (let d' = d\<lparr>auctions :=
                         update_where (\<lambda>a. a_on_chain_id a = Some auction_id)
                           (apply_updates u) (auctions d)\<rparr>
             in case single_row (map (apply_updates u)
                       (filter (\<lambda>a. a_on_chain_id a = Some auction_id) (auctions d))) of
                  None \<Rightarrow> (reply 500 ''Failed to update auction'', d')
                | Some updated \<Rightarrow>
                    (\<lparr>http_status = 200, http_body = AuctionBody updated\<rparr>, d'))))))"

definition DELETE :: "bool \<Rightarrow> string \<Rightarrow> string option \<Rightarrow> db \<Rightarrow> response \<times> db" where
  "DELETE updateError auction_id session d =
     (case session of
        None \<Rightarrow> (reply 401 ''Unauthorized'', d)
      | Some sessionUser \<Rightarrow>
     (case single_row (filter (\<lambda>a. a_on_chain_id a = Some auction_id) (auctions d)) of
        None \<Rightarrow> (reply 404 ''Auction not found'', d)
      | Some auction \<Rightarrow>
     (case find (\<lambda>w. u_id w = a_seller_id auction) (users d) of
        None \<Rightarrow> (reply 500 ''Internal server error'', d)
      | Some owner \<Rightarrow>
          if u_privy_id owner \<noteq> sessionUser then (reply 403 ''Forbidden'', d)
          else if a_bid_count auction > 0
          then (reply 400 ''Cannot cancel auction with bids'', d)
          else if updateError then (reply 500 ''Failed to cancel auction'', d)
          else
            (\<lparr>http_status = 200, http_body = SuccessBody\<rparr>,
             d\<lparr>auctions :=
                  update_where (\<lambda>a. a_on_chain_id a = Some auction_id)
                    (\<lambda>a. a\<lparr>a_status := ''cancelled''\<rparr>) (auctions d)\<rparr>))))"

text \<open>
  The lifecycle of the specification: a status write is forward when it moves an auction
  to a later stage of pending, active, revealing, then settled or cancelled.
\<close>

definition stage :: "string \<Rightarrow> nat option" where
  "stage s =
     (if s = ''pending'' then Some 0
      else if s = ''active'' then Some 1
      else if s = ''revealing'' then Some 2
      else if s = ''settled'' \<or> s = ''cancelled'' then Some 3
      else None)"

definition forward :: "string \<Rightarrow> string \<Rightarrow> bool" where
  "forward s t = (case (stage s, stage t) of (Some i, Some j) \<Rightarrow> i < j | _ \<Rightarrow> False)"

section \<open>Proof verification (lib/noir/verifier.ts) and the bid route (api/auctions/[id]/bids/route.ts)\<close>

text \<open>
  The verifier behind \<open>loadCircuit\<close> and \<open>noir.verifyFinalProof\<close> either returns a
  boolean or throws. \<open>verifyProof\<close> catches and answers \<open>false\<close>.
\<close>

datatype verifier_outcome = Returned bool | Threw

definition verifyProof ::
    "(string \<Rightarrow> byte list \<Rightarrow> string \<Rightarrow> verifier_outcome) \<Rightarrow> byte list \<Rightarrow> string
       \<Rightarrow> string option \<Rightarrow> bool" where
  "verifyProof verifyFinalProof proofBuffer publicInputs circuitName =
     (case verifyFinalProof
             (case circuitName of None \<Rightarrow> ''bid_commitment'' | Some c \<Rightarrow> c)
             proofBuffer publicInputs of
        Returned isValid \<Rightarrow> isValid
      | Threw \<Rightarrow> False)"

record bid_request =
  r_commitmentHash :: string
  r_proof :: string
  r_proofHash :: string
  r_collateralAmount :: real

text \<open>The request body: not JSON, JSON of another shape, or the four fields.\<close>

datatype bid_body = NotJson | WrongShape | Fields bid_request

definition submitBidSchema :: "bid_request \<Rightarrow> bool" where
  "submitBidSchema v =
     (length (r_commitmentHash v) = 64 \<and> length (r_proofHash v) = 64
      \<and> 0 < r_collateralAmount v)"

text \<open>
  What the route takes from outside: the clock, the validity of a public key (the
  constructor throws on an invalid one), the base64 and hex decoders, the verifier, the
  ledger libraries, the serializer (it may throw) and whether the insert fails.
\<close>

record bid_env =
  env_now :: int
  env_validPublicKey :: "string \<Rightarrow> bool"
  env_fromBase64 :: "string \<Rightarrow> byte list"
  env_fromHex :: "string \<Rightarrow> byte list"
  env_verifyFinalProof :: "string \<Rightarrow> byte list \<Rightarrow> string \<Rightarrow> verifier_outcome"
  env_chain :: chain_env
  env_serialize :: "transaction \<Rightarrow> error + string"
  env_insertFails :: bool

record app_state =
  st_db :: db
  st_redis :: redis

definition next_bid_id :: "bid_row list \<Rightarrow> nat" where
  "next_bid_id rows = Suc (fold max (map b_id rows) 0)"

definition wrapped_SOL :: string where
  "wrapped_SOL = ''So11111111111111111111111111111111111111112''"

definition POST_bids ::
    "bid_env \<Rightarrow> string \<Rightarrow> bid_body \<Rightarrow> string option \<Rightarrow> app_state \<Rightarrow> response \<times> app_state" where
  "POST_bids env auction_id request session st =
     (case request of
        NotJson \<Rightarrow> (reply 500 ''Internal server error'', st)
      | WrongShape \<Rightarrow> (reply 400 ''Invalid request data'', st)
      | Fields validatedData \<Rightarrow>
     if \<not> submitBidSchema validatedData then (reply 400 ''Invalid request data'', st)
     else
     (case session of
        None \<Rightarrow> (reply 401 ''Unauthorized'', st)
      | Some sessionUser \<Rightarrow>
     (case bidRateLimit sessionUser auction_id (env_now env) (st_redis st) of
        (Inl e, store') \<Rightarrow>
          (reply 429 ''Rate limit exceeded. Please wait before submitting another bid.'',
           st\<lparr>st_redis := store'\<rparr>)
      | (Inr r, store') \<Rightarrow>
     (let st1 = st\<lparr>st_redis := store'\<rparr>; d = st_db st
      in
     (case single_row (filter (\<lambda>u. u_privy_id u = sessionUser) (users d)) of
        None \<Rightarrow> (reply 404 ''User not found'', st1)
      | Some user \<Rightarrow>
     (case u_wallet_addresses user of
        [] \<Rightarrow> (reply 500 ''Internal server error'', st1)
      | bidderPubkey # others \<Rightarrow>
     if \<not> env_validPublicKey env bidderPubkey then (reply 500 ''Internal server error'', st1)
     else
     (case single_row (filter (\<lambda>a. a_on_chain_id a = Some auction_id) (auctions d)) of
        None \<Rightarrow> (reply 404 ''Auction not found'', st1)
      | Some auction \<Rightarrow>
     if a_status auction \<noteq> ''active'' then (reply 400 ''Auction is not accepting bids'', st1)
     else if a_ends_at auction < env_now env then (reply 400 ''Auction has ended'', st1)
     else
     (case single_row
             (filter (\<lambda>b. b_auction_id b = auction_id \<and> b_bidder_id b = u_id user) (bids d)) of
        Some existingBid \<Rightarrow> (reply 400 ''You already have a bid on this auction'', st1)
      | None \<Rightarrow>
     (let proofBuffer = env_fromBase64 env (r_proof validatedData);
          isValidProof = verifyProof (env_verifyFinalProof env) proofBuffer
                           (r_commitmentHash validatedData) None
      in
     if \<not> isValidProof then (reply 400 ''Invalid proof'', st1)
     else
     (let mint = (case a_payment_mint auction of
                    None \<Rightarrow> wrapped_SOL
                  | Some m \<Rightarrow> if m = [] then wrapped_SOL else m)
      in
     if \<not> env_validPublicKey env auction_id \<or> \<not> env_validPublicKey env mint
     then (reply 500 ''Internal server error'', st1)
     else
     (case buildSubmitBidTransaction (env_chain env)
             \<lparr>auctionId = auction_id, bidder = bidderPubkey,
              commitmentHash = env_fromHex env (r_commitmentHash validatedData),
              proofBuf = proofBuffer,
              proofHash = env_fromHex env (r_proofHash validatedData),
              paymentMint = mint,
              collateralAmount = r_collateralAmount validatedData\<rparr> of
        Inl e \<Rightarrow> (reply 500 ''Internal server error'', st1)
      | Inr tx \<Rightarrow>
     (case env_serialize env tx of
        Inl e \<Rightarrow> (reply 500 ''Internal server error'', st1)
      | Inr serializedTx \<Rightarrow>
     if env_insertFails env then (reply 500 ''Failed to submit bid'', st1)
     else
     (let bid = \<lparr>b_id = next_bid_id (bids d), b_auction_id = auction_id,
                 b_bidder_id = u_id user,
                 b_commitment_hash = r_commitmentHash validatedData,
                 b_on_chain_id = None, b_revealed = False, b_amount = None,
                 b_timestamp = env_now env\<rparr>
      in (\<lparr>http_status = 200, http_body = BidBody (b_id bid) serializedTx\<rparr>,
          st1\<lparr>st_db := d\<lparr>bids := bids d @ [bid]\<rparr>\<rparr>))))))))))))))"

section \<open>Concrete inputs\<close>

text \<open>A small mirror for concrete runs: a seller, a bidder with wallet \<open>K\<close>, one auction.\<close>

definition seller_user :: user_row where
  "seller_user = \<lparr>u_id = ''u1'', u_privy_id = ''privy-seller'', u_wallet_addresses = [''S'']\<rparr>"

definition bidder_user :: user_row where
  "bidder_user = \<lparr>u_id = ''u2'', u_privy_id = ''privy-bidder'', u_wallet_addresses = [''K'']\<rparr>"

definition auction_A1 :: "string \<Rightarrow> int \<Rightarrow> auction_row" where
  "auction_A1 st n =
     \<lparr>a_seller_id = ''u1'', a_on_chain_id = Some ''A1'', a_status = st, a_bid_count = n,
      a_created_at = 0, a_ends_at = 1000000, a_product_type = ''digital'',
      a_payment_mint = None\<rparr>"

text \<open>The bidder's commitment to the amount 7 under the salt \<open>salt0\<close>.\<close>

definition commitment_7 :: string where
  "commitment_7 = ''629d92a9601bbb428ed5fc0a87e1e5858de265037c08644061f49280d975244a''"

definition bid_B1 :: "string option \<Rightarrow> bid_row" where
  "bid_B1 chain_id =
     \<lparr>b_id = 1, b_auction_id = ''A1'', b_bidder_id = ''u2'', b_commitment_hash = commitment_7,
      b_on_chain_id = chain_id, b_revealed = False, b_amount = None, b_timestamp = 0\<rparr>"

definition mirror :: "string \<Rightarrow> int \<Rightarrow> bid_row list \<Rightarrow> db" where
  "mirror st n bs =
     \<lparr>auctions = [auction_A1 st n], bids = bs, users = [seller_user, bidder_user],
      fulfillments = []\<rparr>"

text \<open>An event payload about that auction and bid: it discloses the amount 5.\<close>

definition payload_5 :: account_data where
  "payload_5 =
     \<lparr>d_auctionPubkey = ''A1'', d_seller = ''u1'', d_auctionId = ''A1'', d_bidId = ''B1'',
      d_commitmentHash = commitment_7, d_amount = 5, d_salt = salt0, d_winner = ''K'',
      d_settlementAmount = 5\<rparr>"

text \<open>A batch in which the reveal of the bid comes before its submission.\<close>

definition batch_B1 :: "webhook_event list" where
  "batch_B1 =
     [\<lparr>e_type = ''BID_REVEALED'', e_accountData = Some payload_5\<rparr>,
      \<lparr>e_type = ''BID_SUBMITTED'', e_accountData = Some payload_5\<rparr>,
      \<lparr>e_type = ''AUCTION_SETTLED'', e_accountData = Some payload_5\<rparr>]"

definition no_updates :: auction_updates where
  "no_updates =
     \<lparr>up_seller_id = None, up_on_chain_id = None, up_status = None, up_bid_count = None,
      up_created_at = None, up_ends_at = None, up_product_type = None,
      up_payment_mint = None\<rparr>"

text \<open>Stand-ins for the outside of the bid route in concrete runs; the verifier throws.\<close>

definition test_chain :: chain_env where
  "test_chain =
     \<lparr>getRecentBlockhash = Inr ''blockhash'',
      findProgramAddressSync = (\<lambda>seeds prog. ''pda''),
      toBuffer = utf8,
      getAssociatedTokenAddress = (\<lambda>mint owner. Inr ''ata''),
      PRIVATE_AUCTION_PROGRAM_ID = ''AuctionPrvt1111111111111111111111111111111''\<rparr>"

definition test_env :: "verifier_outcome \<Rightarrow> bid_env" where
  "test_env outcome =
     \<lparr>env_now = 5000,
      env_validPublicKey = (\<lambda>k. True),
      env_fromBase64 = utf8,
      env_fromHex = utf8,
      env_verifyFinalProof = (\<lambda>circuit proofBuffer publicInputs. outcome),
      env_chain = test_chain,
      env_serialize = (\<lambda>tx. Inr ''unsigned-transaction''),
      env_insertFails = False\<rparr>"

definition test_request :: bid_request where
  "test_request =
     \<lparr>r_commitmentHash = commitment_7, r_proof = ''cHJvb2Y='',
      r_proofHash = commitment_7, r_collateralAmount = 1\<rparr>"

definition test_state :: app_state where
  "test_state = \<lparr>st_db = mirror ''active'' 0 [], st_redis = no_requests\<rparr>"

section \<open>Properties\<close>

subsection \<open>The hash primitives\<close>

lemma sha256_abc:
  "toHex (sha256 (utf8 ''abc'')) =
     ''ba7816bf8f01cfea414140de5dae2223b00361a396177a9cb410ff61f20015ad''"
  by code_simp

lemma sha256_two_blocks:
  "toHex (sha256 (utf8 ''abcdbcdecdefdefgefghfghighijhijkijkljklmklmnlmnomnopnopq'')) =
     ''248d6a61d20638b8e5c026930c3e6039a33ce45964ff2167f6ecedd419db06c1''"
  by code_simp

lemma hmac_sha256_rfc4231:
  "toHex (hmac_sha256 (utf8 ''Jefe'') (utf8 ''what do ya want for nothing?'')) =
     ''5bdcc146bf60754e6a042426089575c75a003f089d2739839dec58b964ec3843''"
  by code_simp

lemma le_bytes_eq_map:
  "le_bytes n v = map (\<lambda>i. word_of_int (v div 256 ^ i) :: byte) [0..<n]"
proof (induction n arbitrary: v)
  case 0
  then show ?case by simp
next
  case (Suc n)
  have "[0..<Suc n] = 0 # map Suc [0..<n]"
    by (simp add: upt_conv_Cons map_Suc_upt del: upt_Suc)
  then have "map (\<lambda>i. word_of_int (v div 256 ^ i) :: byte) [0..<Suc n] =
        word_of_int v # map (\<lambda>i. word_of_int (v div 256 ^ Suc i)) [0..<n]"
    by (simp add: comp_def del: upt_Suc)
  moreover have "(word_of_int (v mod 256) :: byte) = word_of_int v"
    by (simp add: word_of_int_eq_iff take_bit_eq_mod)
  moreover have "\<And>i. v div 256 div 256 ^ i = v div 256 ^ Suc i"
    by (simp add: zdiv_zmult2_eq)
  ultimately show ?case
    using Suc.IH [of "v div 256"] by (simp del: upt_Suc power_Suc)
qed

lemma commitment_example:
  "generateCommitmentHash 5 salt0 ''K'' =
     Inr ''b47f1e18af72227df0125ea7dde4db77835b949fee251067366d7376e1040849''"
  by code_simp

subsection \<open>The commitment hash\<close>

text \<open>
  C9. For every bid amount that fits 64 unsigned bits, every salt and every bidder key, the
  prover's commitment hash is the hex SHA-256 digest of the 8 little-endian bytes of the
  amount, followed by the salt, followed by the UTF-8 bytes of the key.
\<close>

theorem generateCommitmentHash_spec:
  assumes "0 \<le> amount" and "amount < 2 ^ 64"
  shows "generateCommitmentHash amount salt key = Inr (commitment_spec amount salt key)"
  using assms
  by (simp add: generateCommitmentHash_def writeBigUInt64LE_def commitment_spec_def
      uint64_le_def le_bytes_eq_map digest_hex_def update_def createHash_def)

theorem generateCommitmentHash_spec_witness:
  "(0::int) \<le> 5 \<and> (5::int) < 2 ^ 64 \<and>
   generateCommitmentHash 5 salt0 ''K'' = Inr (commitment_spec 5 salt0 ''K'') \<and>
   commitment_spec 5 salt0 ''K'' =
     ''b47f1e18af72227df0125ea7dde4db77835b949fee251067366d7376e1040849''"
  using generateCommitmentHash_spec [of 5 salt0 "''K''"] commitment_example
  by simp

subsection \<open>The bid-submission transaction\<close>

lemma length_copy_into: "length (copy_into src tgt off) = length tgt"
  by (simp add: copy_into_def)

text \<open>
  Where everything fits the 256-byte buffer (two 32-byte hashes and a proof of at most 187
  bytes), the data is the discriminator, the two hashes, the proof length as four
  little-endian bytes, and the proof.
\<close>

lemma submitBidData_layout:
  assumes "length (commitmentHash params) = 32" and "length (proofHash params) = 32"
    and "length (proofBuf params) \<le> 187"
  shows "submitBidData params =
           Inr ([1] @ commitmentHash params @ proofHash params
                  @ le_bytes 4 (int (length (proofBuf params))) @ proofBuf params)"
proof -
  define c where "c = commitmentHash params"
  define h where "h = proofHash params"
  define q where "q = proofBuf params"
  have lc: "length c = 32" and lh: "length h = 32" and lq: "length q \<le> 187"
    using assms by (simp_all add: c_def h_def q_def)
  define n where "n = le_bytes 4 (int (length q))"
  have ln: "length n = 4"
    by (simp add: n_def numeral_eq_Suc)
  have d1: "copy_into [1] (replicate 256 0) 0 = [1] @ replicate 255 (0::byte)"
    by (simp add: copy_into_def drop_replicate)
  have d2: "copy_into c ([1] @ replicate 255 0) 1 = [1] @ c @ replicate 223 (0::byte)"
    using lc by (simp add: copy_into_def drop_replicate)
  have d3: "copy_into h ([1] @ c @ replicate 223 0) 33 = [1] @ c @ h @ replicate 191 (0::byte)"
    using lc lh by (simp add: copy_into_def drop_replicate)
  have d4: "copy_into n ([1] @ c @ h @ replicate 191 0) 65
              = [1] @ c @ h @ n @ replicate 187 (0::byte)"
    using lc lh ln by (simp add: copy_into_def drop_replicate)
  define pre where "pre = [1] @ c @ h @ n"
  have lp: "length pre = 69"
    using lc lh ln by (simp add: pre_def)
  have "copy_into q (pre @ replicate 187 0) 69 = pre @ q @ replicate (187 - length q) (0::byte)"
    using lp lq by (simp add: copy_into_def drop_replicate)
  then have d5: "copy_into q ([1] @ c @ h @ n @ replicate 187 0) 69
              = [1] @ c @ h @ n @ q @ replicate (187 - length q) (0::byte)"
    by (simp add: pre_def)
  have "take (69 + length q) (pre @ q @ replicate (187 - length q) (0::byte)) = pre @ q"
    using lp by simp
  then have t: "take (69 + length q) ([1] @ c @ h @ n @ q @ replicate (187 - length q) (0::byte))
             = [1] @ c @ h @ n @ q"
    by (simp add: pre_def)
  have w: "writeUInt32LE (length q) 65 ([1] @ c @ h @ replicate 191 0)
             = Inr ([1] @ c @ h @ n @ replicate 187 0)"
    using lc lh lq d4 by (simp add: writeUInt32LE_def n_def)
  show ?thesis
    unfolding submitBidData_def SUBMIT_BID_def Let_def
    using d1 d2 d3 w d5 t
    by (simp add: c_def [symmetric] h_def [symmetric] q_def [symmetric] n_def [symmetric])
qed

text \<open>
  C10. The unsigned submit-bid transaction, and with it the serialized instruction data,
  does not depend on the collateral amount: two calls that differ only in
  \<open>collateralAmount\<close> build the same data and the same transaction.
\<close>

theorem buildSubmitBidTransaction_ignores_collateral:
  "submitBidData (params\<lparr>collateralAmount := c\<rparr>) = submitBidData params \<and>
   buildSubmitBidTransaction env (params\<lparr>collateralAmount := c\<rparr>)
     = buildSubmitBidTransaction env params"
  by (simp add: submitBidData_def buildSubmitBidTransaction_def Let_def split: sum.splits)

subsection \<open>The connection pool\<close>

lemma healthTick_failure_on_primary:
  "currentConnection p = Primary \<Longrightarrow> \<not> getSlot Primary \<Longrightarrow>
   healthTick getSlot p = \<lparr>currentConnection = Fallback, consecutiveFailures = 0\<rparr>"
  by (cases p) (simp add: healthTick_def checkHealth_def switchToFallback_def)

lemma healthTick_back_to_primary:
  "currentConnection p = Fallback \<Longrightarrow> getSlot Fallback \<Longrightarrow> getSlot Primary \<Longrightarrow>
   currentConnection (healthTick getSlot p) = Primary"
  by (simp add: healthTick_def checkHealth_def tryPrimary_def)

text \<open>
  C5. The specification asks for a switch to the fallback only after three consecutive failed
  health checks. On the code a single failed check, on a fresh pool, already moves the pool
  to the fallback: the callback switches on the first unhealthy probe, and the declared
  threshold \<open>maxFailures\<close> is never consulted. A following check in which both endpoints
  answer moves the pool back to the primary.
\<close>

theorem healthTick_switches_after_one_failure:
  "maxFailures = 3 \<and>
   getConnection (healthTick (\<lambda>c. False) newPool) = Fallback \<and>
   healthTick (\<lambda>c. False) newPool = \<lparr>currentConnection = Fallback, consecutiveFailures = 0\<rparr> \<and>
   getConnection (healthTicks [\<lambda>c. False, \<lambda>c. True] newPool) = Primary"
  by (simp add: healthTick_def checkHealth_def switchToFallback_def tryPrimary_def newPool_def
      getConnection_def maxFailures_def)












subsection \<open>Rate limiting\<close>

lemma bidRateLimit_uses_apiRequest:
  "bidRateLimit userId auction_id now store =
     checkRateLimit (''bid:'' @ userId @ '':'' @ auction_id) (Some apiRequest) now store"
  by (simp add: bidRateLimit_def checkRateLimit_def)

text \<open>
  C4. The specification asks that the 11th submission by one user on one auction within 60 seconds
  be refused. On the code, eleven submissions one second apart all pass the rate-limiting
  step: the route calls \<open>checkRateLimit\<close> without naming a limiter, so the default
  \<open>apiRequest\<close> limiter (100 per minute) applies instead of \<open>bidSubmission\<close> (10 per
  minute), under which the same 11th request is refused.
\<close>

theorem bidRateLimit_admits_eleventh:
  "bidRateLimitRun ''user-1'' ''auction-1'' eleven_seconds no_requests = replicate 11 True \<and>
   bidSubmissionLimiterRun ''bid:user-1:auction-1'' eleven_seconds no_requests
     = replicate 10 True @ [False]"
  by code_simp

subsection \<open>The webhook signature\<close>

lemma length_rounds: "length (rounds s ks ws) = length s"
  by (induction s ks ws rule: rounds.induct) (simp_all add: Let_def)

lemma length_compress: "length (compress hs blk) = length hs"
  by (simp add: compress_def length_rounds)

lemma length_foldl_compress: "length (foldl compress hs blks) = length hs"
  by (induction blks arbitrary: hs) (simp_all add: length_compress)

lemma length_be_bytes: "length (be_bytes n x acc) = n + length acc"
  by (induction n x acc rule: be_bytes.induct) simp_all

lemma length_concat_const:
  "(\<And>x. x \<in> set xs \<Longrightarrow> length (f x) = k) \<Longrightarrow> length (concat (map f xs)) = k * length xs"
  by (induction xs) simp_all

lemma length_sha256: "length (sha256 m) = 32"
proof -
  have "length (foldl compress H256 blks) = 8" for blks
    by (simp add: length_foldl_compress H256_def)
  then show ?thesis
    by (simp add: sha256_def Let_def length_concat_const [where k = 4] length_be_bytes)
qed

lemma hexdigit_ascii: "n < 16 \<Longrightarrow> (of_char (hexdigit n) :: nat) < 128"
proof -
  assume "n < 16"
  then have "hexdigit n \<in> set ''0123456789abcdef''"
    unfolding hexdigit_def by (intro nth_mem) simp
  moreover have "\<forall>c \<in> set ''0123456789abcdef''. (of_char c :: nat) < 128"
    by simp
  ultimately show ?thesis by blast
qed

lemma byte_nibbles: "unat (b :: byte) div 16 < 16" "unat b mod 16 < 16"
proof -
  have "unat b < 256"
    using unsigned_less [of b, where 'a = nat] by simp
  then show "unat b div 16 < 16" by arith
  show "unat b mod 16 < 16" by simp
qed

lemma toHex_ascii: "c \<in> set (toHex bs) \<Longrightarrow> (of_char c :: nat) < 128"
  by (auto simp: toHex_def hexdigit_ascii byte_nibbles)

lemma length_toHex: "length (toHex bs) = 2 * length bs"
  by (simp add: toHex_def length_concat_const [where k = 2])

lemma length_utf8_ascii:
  "(\<And>c. c \<in> set s \<Longrightarrow> (of_char c :: nat) < 128) \<Longrightarrow> length (utf8 s) = length s"
  by (induction s) (simp_all add: utf8_def)

lemma length_expected_signature:
  "length (utf8 (toHex (hmac_sha256 key msg))) = 64"
  by (simp add: length_utf8_ascii toHex_ascii length_toHex hmac_sha256_def Let_def length_sha256)

lemma verifySignature_wrong_length:
  "length (utf8 signature) \<noteq> 64 \<Longrightarrow> verifySignature secret payload signature = Inl RangeError"
  by (simp add: verifySignature_def timingSafeEqual_def Let_def length_expected_signature)

lemma POST_webhook_unverified_unchanged:
  "verifySignature secret (w_body request) (the (w_signature request)) \<noteq> Inr True
     \<or> w_signature request = None \<or> w_signature request = Some [] \<Longrightarrow>
   snd (POST_webhook u secret parse request d) = d \<and>
   http_status (fst (POST_webhook u secret parse request d)) \<in> {401, 500}"
  by (auto simp: POST_webhook_def split: option.splits sum.splits bool.splits)

text \<open>
  A batch signed with the secret is processed; a signature of the right length that does
  not match is answered 401, and so is a missing or empty header.
\<close>

lemma POST_webhook_signed:
  "POST_webhook u ''Jefe'' parse
     \<lparr>w_body = ''what do ya want for nothing?'',
      w_signature = Some ''5bdcc146bf60754e6a042426089575c75a003f089d2739839dec58b964ec3843''\<rparr> d
   = (case parse ''what do ya want for nothing?'' of
        None \<Rightarrow> (\<lparr>http_status = 500, http_body = ErrorBody ''Internal server error''\<rparr>, d)
      | Some events \<Rightarrow>
          (\<lparr>http_status = 200, http_body = SuccessBody\<rparr>, processEvents u events d))"
  by (simp add: POST_webhook_def verifySignature_def timingSafeEqual_def hmac_sha256_rfc4231)

lemma POST_webhook_mismatch:
  "POST_webhook u ''Jefe'' parse
     \<lparr>w_body = ''what do ya want for nothing?'',
      w_signature = Some ''0000000000000000000000000000000000000000000000000000000000000000''\<rparr> d
   = (\<lparr>http_status = 401, http_body = ErrorBody ''Invalid signature''\<rparr>, d)"
proof -
  have "verifySignature ''Jefe'' ''what do ya want for nothing?''
          ''0000000000000000000000000000000000000000000000000000000000000000'' = Inr False"
    unfolding verifySignature_def Let_def hmac_sha256_rfc4231
    by (simp add: timingSafeEqual_def utf8_def)
  then show ?thesis
    by (simp add: POST_webhook_def)
qed

lemma POST_webhook_missing:
  "POST_webhook u secret parse \<lparr>w_body = payload, w_signature = None\<rparr> d
     = (\<lparr>http_status = 401, http_body = ErrorBody ''Missing signature''\<rparr>, d)"
  "POST_webhook u secret parse \<lparr>w_body = payload, w_signature = Some []\<rparr> d
     = (\<lparr>http_status = 401, http_body = ErrorBody ''Missing signature''\<rparr>, d)"
  by (simp_all add: POST_webhook_def)

text \<open>
  C7. The specification asks for a 401 response to every batch whose signature does not match,
  a signature of the wrong length included. On the code a signature whose byte length is
  not that of the hex digest (64) makes \<open>timingSafeEqual\<close> throw; the route's outer
  \<open>catch\<close> answers 500, whatever the secret and the body. No handler runs and the mirror is
  unchanged, as the specification says.
\<close>

theorem POST_webhook_wrong_length_is_500:
  "POST_webhook u secret parse \<lparr>w_body = payload, w_signature = Some ''abc''\<rparr> d
     = (\<lparr>http_status = 500, http_body = ErrorBody ''Internal server error''\<rparr>, d)"
proof -
  have "length (utf8 ''abc'') \<noteq> 64"
    by (simp add: utf8_def)
  then have "verifySignature secret payload ''abc'' = Inl RangeError"
    by (rule verifySignature_wrong_length)
  then show ?thesis
    by (simp add: POST_webhook_def)
qed

subsection \<open>Reveals\<close>

lemma commitment_7_example: "generateCommitmentHash 7 salt0 ''K'' = Inr commitment_7"
  unfolding commitment_7_def
  by code_simp

text \<open>
  C1 as stated fails: the reveal handler does not recompute the commitment. A bid committed
  to the amount 7 receives a reveal event that discloses the amount 5 under the same salt;
  the hash of what the event discloses is not the stored commitment, and the handler still
  marks the bid as revealed and writes the amount 5.
\<close>

theorem handleBidRevealed_unchecked_counterexample:
  "generateCommitmentHash (d_amount payload_5) (d_salt payload_5) ''K''
     \<noteq> Inr (b_commitment_hash (bid_B1 (Some ''B1'')))
   \<and> bids (handleBidRevealed (Some payload_5) (mirror ''revealing'' 1 [bid_B1 (Some ''B1'')]))
     = [(bid_B1 (Some ''B1''))\<lparr>b_revealed := True, b_amount := Some 5\<rparr>]"
proof -
  have "generateCommitmentHash (d_amount payload_5) (d_salt payload_5) ''K''
          = Inr ''b47f1e18af72227df0125ea7dde4db77835b949fee251067366d7376e1040849''"
    using commitment_example by (simp add: payload_5_def)
  then have "generateCommitmentHash (d_amount payload_5) (d_salt payload_5) ''K''
     \<noteq> Inr (b_commitment_hash (bid_B1 (Some ''B1'')))"
    by (simp add: bid_B1_def commitment_7_def)
  moreover have
    "bids (handleBidRevealed (Some payload_5) (mirror ''revealing'' 1 [bid_B1 (Some ''B1'')]))
     = [(bid_B1 (Some ''B1''))\<lparr>b_revealed := True, b_amount := Some 5\<rparr>]"
    by (simp add: handleBidRevealed_def update_where_def mirror_def bid_B1_def payload_5_def)
  ultimately show ?thesis by simp
qed

text \<open>
  C1, as the code has it. A reveal event marks as revealed, with the amount of the event,
  every bid whose on-chain id is the event's bid id, and changes nothing else; the stored
  commitment hash plays no part: rewriting the commitment hashes of the mirror before or
  after the handler gives the same mirror.
\<close>

theorem handleBidRevealed_ignores_commitment:
  "handleBidRevealed (Some ev) d =
     d\<lparr>bids := map (\<lambda>b. if b_on_chain_id b = Some (d_bidId ev)
                         then b\<lparr>b_revealed := True, b_amount := Some (d_amount ev)\<rparr> else b)
                  (bids d)\<rparr>
   \<and> handleBidRevealed (Some ev) (d\<lparr>bids := map (b_commitment_hash_update f) (bids d)\<rparr>) =
       (handleBidRevealed (Some ev) d)
         \<lparr>bids := map (b_commitment_hash_update f) (bids (handleBidRevealed (Some ev) d))\<rparr>"
  by (simp add: handleBidRevealed_def update_where_def comp_def if_distrib cong: if_cong)

subsection \<open>Replayed events\<close>

lemma update_where_idem:
  "(\<And>r. sel r \<Longrightarrow> sel (upd r) \<and> upd (upd r) = upd r) \<Longrightarrow>
   update_where sel upd (update_where sel upd rows) = update_where sel upd rows"
  by (induction rows) (auto simp: update_where_def)

text \<open>
  C2 as stated fails. The batch \<open>batch_B1\<close> is processed on a mirror that holds the bid,
  not yet confirmed, even with a fulfillments table that refuses a second row per auction.
  Processed once, it leaves the bid unrevealed and a bid count of 1; processed a second
  time, it leaves the bid revealed with the amount 5 and a bid count of 2. Without the
  table's refusal the second pass also adds a second fulfillment row.
\<close>

theorem processEvents_replay_counterexample:
  "map b_revealed (bids (processEvents True batch_B1 (mirror ''revealing'' 0 [bid_B1 None])))
     = [False]
   \<and> map b_revealed (bids (processEvents True batch_B1
         (processEvents True batch_B1 (mirror ''revealing'' 0 [bid_B1 None])))) = [True]
   \<and> map a_bid_count (auctions (processEvents True batch_B1
         (mirror ''revealing'' 0 [bid_B1 None]))) = [1]
   \<and> map a_bid_count (auctions (processEvents True batch_B1
         (processEvents True batch_B1 (mirror ''revealing'' 0 [bid_B1 None])))) = [2]
   \<and> length (fulfillments (processEvents False batch_B1
         (mirror ''revealing'' 0 [bid_B1 None]))) = 1
   \<and> length (fulfillments (processEvents False batch_B1
         (processEvents False batch_B1 (mirror ''revealing'' 0 [bid_B1 None])))) = 2"
  by code_simp

lemma insert_fulfillment_again:
  "insert_fulfillment True row (insert_fulfillment True row rows)
     = insert_fulfillment True row rows"
  by (simp add: insert_fulfillment_def)

text \<open>
  C2, as the code has it, for one event delivered twice in a row. A reveal delivered again
  changes nothing. A bid submission delivered again leaves the bids as they were and adds
  one more to the auction's bid count. A settlement delivered again leaves auctions, bids
  and users as they were; it changes nothing at all where the fulfillments table refuses a
  second row per auction, and otherwise appends once more the fulfillment row that the
  first delivery appended.
\<close>

theorem redelivery:
  "handleBidRevealed x (handleBidRevealed x d) = handleBidRevealed x d
   \<and> handleBidSubmitted (Some ev) (handleBidSubmitted (Some ev) d) =
       (handleBidSubmitted (Some ev) d)
         \<lparr>auctions := increment_bid_count (d_auctionId ev)
                         (auctions (handleBidSubmitted (Some ev) d))\<rparr>
   \<and> handleAuctionSettled True x (handleAuctionSettled True x d) = handleAuctionSettled True x d
   \<and> handleAuctionSettled False x (handleAuctionSettled False x d) =
       (handleAuctionSettled False x d)
         \<lparr>fulfillments := fulfillments (handleAuctionSettled False x d)
            @ drop (length (fulfillments d)) (fulfillments (handleAuctionSettled False x d))\<rparr>"
proof (intro conjI)
  show "handleBidRevealed x (handleBidRevealed x d) = handleBidRevealed x d"
    by (cases x) (simp_all add: handleBidRevealed_def update_where_idem)
next
  have "update_where
          (\<lambda>b. b_commitment_hash b = d_commitmentHash ev \<and> b_auction_id b = d_auctionId ev)
          (\<lambda>b. b\<lparr>b_on_chain_id := Some (d_bidId ev)\<rparr>)
          (update_where
             (\<lambda>b. b_commitment_hash b = d_commitmentHash ev \<and> b_auction_id b = d_auctionId ev)
             (\<lambda>b. b\<lparr>b_on_chain_id := Some (d_bidId ev)\<rparr>) (bids d))
        = update_where
          (\<lambda>b. b_commitment_hash b = d_commitmentHash ev \<and> b_auction_id b = d_auctionId ev)
          (\<lambda>b. b\<lparr>b_on_chain_id := Some (d_bidId ev)\<rparr>) (bids d)"
    by (rule update_where_idem) simp
  then show "handleBidSubmitted (Some ev) (handleBidSubmitted (Some ev) d) =
       (handleBidSubmitted (Some ev) d)
         \<lparr>auctions := increment_bid_count (d_auctionId ev)
                         (auctions (handleBidSubmitted (Some ev) d))\<rparr>"
    by (simp add: handleBidSubmitted_def)
next
  show "handleAuctionSettled True x (handleAuctionSettled True x d) = handleAuctionSettled True x d"
  proof (cases x)
    case None
    then show ?thesis by (simp add: handleAuctionSettled_def)
  next
    case (Some ev)
    let ?sel = "\<lambda>a. a_on_chain_id a = Some (d_auctionId ev)"
    let ?upd = "\<lambda>a. a\<lparr>a_status := ''settled''\<rparr>"
    have idem: "update_where ?sel ?upd (update_where ?sel ?upd (auctions d))
                  = update_where ?sel ?upd (auctions d)"
      by (rule update_where_idem) simp
    show ?thesis
      unfolding Some
      by (simp add: handleAuctionSettled_def Let_def idem insert_fulfillment_again
          split: option.splits)
  qed
next
  show "handleAuctionSettled False x (handleAuctionSettled False x d) =
       (handleAuctionSettled False x d)
         \<lparr>fulfillments := fulfillments (handleAuctionSettled False x d)
            @ drop (length (fulfillments d)) (fulfillments (handleAuctionSettled False x d))\<rparr>"
  proof (cases x)
    case None
    then show ?thesis by (simp add: handleAuctionSettled_def)
  next
    case (Some ev)
    let ?sel = "\<lambda>a. a_on_chain_id a = Some (d_auctionId ev)"
    let ?upd = "\<lambda>a. a\<lparr>a_status := ''settled''\<rparr>"
    have idem: "update_where ?sel ?upd (update_where ?sel ?upd (auctions d))
                  = update_where ?sel ?upd (auctions d)"
      by (rule update_where_idem) simp
    show ?thesis
      unfolding Some
      by (simp add: handleAuctionSettled_def Let_def idem insert_fulfillment_def
          split: option.splits)
  qed
qed

subsection \<open>Status writes\<close>

lemma list_all2_update_where:
  "(\<And>r. r \<in> set rows \<Longrightarrow> sel r \<Longrightarrow> P r (upd r)) \<Longrightarrow> (\<And>r. P r r) \<Longrightarrow>
   list_all2 P rows (update_where sel upd rows)"
  by (induction rows) (auto simp: update_where_def)

lemma list_all2_update_first:
  "(\<And>r. r \<in> set rows \<Longrightarrow> sel r \<Longrightarrow> P r (upd r)) \<Longrightarrow> (\<And>r. P r r) \<Longrightarrow>
   list_all2 P rows (update_first sel upd rows)"
  by (induction rows) (auto intro: list_all2_refl)

text \<open>
  C3 as stated fails. A settlement event settles a cancelled auction: a terminal status is
  replaced, and nothing is refused. A settled auction without bids is cancelled by its
  seller's DELETE, with a 200 response. An active auction is moved back to pending by its
  seller's PATCH. None of the three is a forward move of the lifecycle.
\<close>

theorem status_writes_counterexample:
  "auctions (handleAuctionSettled True (Some payload_5) (mirror ''cancelled'' 0 []))
     = [auction_A1 ''settled'' 0]
   \<and> \<not> forward ''cancelled'' ''settled''
   \<and> DELETE False ''A1'' (Some ''privy-seller'') (mirror ''settled'' 0 [])
     = (\<lparr>http_status = 200, http_body = SuccessBody\<rparr>, mirror ''cancelled'' 0 [])
   \<and> \<not> forward ''settled'' ''cancelled''
   \<and> snd (PATCH False ''A1'' (Some (no_updates\<lparr>up_status := Some ''pending''\<rparr>))
            (Some ''privy-seller'') (mirror ''active'' 0 []))
     = mirror ''pending'' 0 []
   \<and> \<not> forward ''active'' ''pending''"
  by code_simp

text \<open>
  C3, as the code has it. The creation handler changes a status only from pending to
  active. PATCH on an auction that is neither pending nor active, and DELETE on an auction
  with bids, are refused (status 400, or an earlier 401, 403 or 500) and leave the mirror
  unchanged. The only status that DELETE writes is cancelled. The settlement handler
  writes settled, and no other status, on every auction with the event's on-chain id,
  whatever its status was.
\<close>

theorem status_write_guards:
  "list_all2 (\<lambda>a a'. a_status a' = a_status a \<or> (a_status a = ''pending'' \<and> a_status a' = ''active''))
     (auctions d) (auctions (handleAuctionCreated x d))
   \<and> (\<forall>auction.
        single_row (filter (\<lambda>a. a_on_chain_id a = Some aid) (auctions d)) = Some auction
        \<and> a_status auction \<noteq> ''pending'' \<and> a_status auction \<noteq> ''active'' \<longrightarrow>
        snd (PATCH e aid u s d) = d \<and> http_status (fst (PATCH e aid u s d)) \<in> {400, 401, 403, 500})
   \<and> (\<forall>auction.
        single_row (filter (\<lambda>a. a_on_chain_id a = Some aid) (auctions d)) = Some auction
        \<and> 0 < a_bid_count auction \<longrightarrow>
        snd (DELETE e aid s d) = d \<and> http_status (fst (DELETE e aid s d)) \<in> {400, 401, 403, 500})
   \<and> list_all2 (\<lambda>a a'. a_status a' = a_status a \<or> a_status a' = ''cancelled'')
        (auctions d) (auctions (snd (DELETE e aid s d)))
   \<and> map a_status (auctions (handleAuctionSettled k (Some ev) d))
        = map (\<lambda>a. if a_on_chain_id a = Some (d_auctionId ev) then ''settled'' else a_status a)
            (auctions d)"
proof (intro conjI allI impI)
  show "list_all2 (\<lambda>a a'. a_status a' = a_status a \<or> (a_status a = ''pending'' \<and> a_status a' = ''active''))
     (auctions d) (auctions (handleAuctionCreated x d))"
    by (cases x)
      (auto simp: handleAuctionCreated_def Let_def intro!: list_all2_update_first list_all2_refl)
next
  fix auction
  assume "single_row (filter (\<lambda>a. a_on_chain_id a = Some aid) (auctions d)) = Some auction
        \<and> a_status auction \<noteq> ''pending'' \<and> a_status auction \<noteq> ''active''"
  then show "snd (PATCH e aid u s d) = d"
    and "http_status (fst (PATCH e aid u s d)) \<in> {400, 401, 403, 500}"
    by (auto simp: PATCH_def reply_def split: option.splits)
next
  fix auction
  assume "single_row (filter (\<lambda>a. a_on_chain_id a = Some aid) (auctions d)) = Some auction
        \<and> 0 < a_bid_count auction"
  then show "snd (DELETE e aid s d) = d"
    and "http_status (fst (DELETE e aid s d)) \<in> {400, 401, 403, 500}"
    by (auto simp: DELETE_def reply_def split: option.splits)
next
  show "list_all2 (\<lambda>a a'. a_status a' = a_status a \<or> a_status a' = ''cancelled'')
        (auctions d) (auctions (snd (DELETE e aid s d)))"
    by (auto simp: DELETE_def split: option.splits
        intro!: list_all2_update_where list_all2_refl)
next
  show "map a_status (auctions (handleAuctionSettled k (Some ev) d))
        = map (\<lambda>a. if a_on_chain_id a = Some (d_auctionId ev) then ''settled'' else a_status a)
            (auctions d)"
    by (auto simp: handleAuctionSettled_def Let_def update_where_def split: option.splits)
qed

theorem status_write_guards_witness:
  "PATCH False ''A1'' (Some (no_updates\<lparr>up_status := Some ''active''\<rparr>)) (Some ''privy-seller'')
       (mirror ''settled'' 0 [])
     = (reply 400 ''Auction cannot be modified'', mirror ''settled'' 0 [])
   \<and> DELETE False ''A1'' (Some ''privy-seller'') (mirror ''active'' 2 [])
     = (reply 400 ''Cannot cancel auction with bids'', mirror ''active'' 2 [])
   \<and> snd (DELETE False ''A1'' (Some ''privy-seller'') (mirror ''active'' 0 []))
     = mirror ''cancelled'' 0 []"
proof -
  have p: "PATCH False ''A1'' (Some (no_updates\<lparr>up_status := Some ''active''\<rparr>)) (Some ''privy-seller'')
       (mirror ''settled'' 0 [])
     = (reply 400 ''Auction cannot be modified'', mirror ''settled'' 0 [])"
    by code_simp
  have dl: "DELETE False ''A1'' (Some ''privy-seller'') (mirror ''active'' 2 [])
     = (reply 400 ''Cannot cancel auction with bids'', mirror ''active'' 2 [])"
    by code_simp
  have dc: "snd (DELETE False ''A1'' (Some ''privy-seller'') (mirror ''active'' 0 []))
     = mirror ''cancelled'' 0 []"
    by code_simp
  have s1: "single_row (filter (\<lambda>a. a_on_chain_id a = Some ''A1'') (auctions (mirror ''settled'' 0 [])))
              = Some (auction_A1 ''settled'' 0)"
    by (simp add: single_row_def mirror_def auction_A1_def)
  have s2: "single_row (filter (\<lambda>a. a_on_chain_id a = Some ''A1'') (auctions (mirror ''active'' 2 [])))
              = Some (auction_A1 ''active'' 2)"
    by (simp add: single_row_def mirror_def auction_A1_def)
  have g1: "snd (PATCH False ''A1'' (Some (no_updates\<lparr>up_status := Some ''active''\<rparr>))
                   (Some ''privy-seller'') (mirror ''settled'' 0 [])) = mirror ''settled'' 0 []"
    using status_write_guards [where d = "mirror ''settled'' 0 []" and aid = "''A1''"
        and u = "Some (no_updates\<lparr>up_status := Some ''active''\<rparr>)"
        and s = "Some ''privy-seller''"] s1
    by (simp add: auction_A1_def)
  have g2: "snd (DELETE False ''A1'' (Some ''privy-seller'') (mirror ''active'' 2 [])) = mirror ''active'' 2 []"
    using status_write_guards [where d = "mirror ''active'' 2 []" and aid = "''A1''"
        and s = "Some ''privy-seller''"] s2
    by (simp add: auction_A1_def)
  show ?thesis
    using p dl dc g1 g2 by simp
qed

subsection \<open>Bid submission and proof verification\<close>

lemma verifyProof_true_iff:
  "verifyProof v p i c
     = (v (case c of None \<Rightarrow> ''bid_commitment'' | Some n \<Rightarrow> n) p i = Returned True)"
  by (auto simp: verifyProof_def split: verifier_outcome.splits)

text \<open>
  C8. Whatever the request, the session and the state: if the verifier, asked about the
  submitted proof and commitment on the circuit \<open>bid_commitment\<close>, returns false or
  throws, then the route answers with an error (never 200, never a transaction) and the
  bids table is unchanged. Hence a bid row is persisted only when the verifier returned
  true.
\<close>

theorem POST_bids_fails_closed:
  "((\<forall>v. request = Fields v \<longrightarrow>
        env_verifyFinalProof env ''bid_commitment''
          (env_fromBase64 env (r_proof v)) (r_commitmentHash v) \<noteq> Returned True) \<longrightarrow>
      st_db (snd (POST_bids env auction_id request session st)) = st_db st
      \<and> http_status (fst (POST_bids env auction_id request session st)) \<noteq> 200
      \<and> (\<exists>msg. http_body (fst (POST_bids env auction_id request session st)) = ErrorBody msg))
   \<and> (bids (st_db (snd (POST_bids env auction_id request session st))) \<noteq> bids (st_db st) \<longrightarrow>
        (\<exists>v. request = Fields v \<and>
           env_verifyFinalProof env ''bid_commitment''
             (env_fromBase64 env (r_proof v)) (r_commitmentHash v) = Returned True))"
proof -
  have closed: "st_db (snd (POST_bids env auction_id request session st)) = st_db st
      \<and> http_status (fst (POST_bids env auction_id request session st)) \<noteq> 200
      \<and> (\<exists>msg. http_body (fst (POST_bids env auction_id request session st)) = ErrorBody msg)"
    if fails: "\<And>v. request = Fields v \<Longrightarrow>
        env_verifyFinalProof env ''bid_commitment''
          (env_fromBase64 env (r_proof v)) (r_commitmentHash v) \<noteq> Returned True"
  proof (cases request)
    case NotJson
    then show ?thesis by (simp add: POST_bids_def reply_def)
  next
    case WrongShape
    then show ?thesis by (simp add: POST_bids_def reply_def)
  next
    case (Fields v)
    then have nv: "\<not> verifyProof (env_verifyFinalProof env) (env_fromBase64 env (r_proof v))
                       (r_commitmentHash v) None"
      using fails by (simp add: verifyProof_true_iff)
    show ?thesis
      unfolding Fields POST_bids_def Let_def
      using nv
      by (simp add: reply_def split: option.splits prod.splits sum.splits list.splits)
  qed
  then show ?thesis by metis
qed

lemma POST_bids_verifier_throws:
  "POST_bids (test_env Threw) ''A1'' (Fields test_request) (Some ''privy-bidder'') test_state
     = (reply 400 ''Invalid proof'',
        test_state\<lparr>st_redis := no_requests(''ratelimit:api:bid:privy-bidder:A1'' := [5000])\<rparr>)"
  by (simp add: POST_bids_def test_env_def test_request_def test_state_def mirror_def
      auction_A1_def seller_user_def bidder_user_def commitment_7_def submitBidSchema_def
      bidRateLimit_def checkRateLimit_def limit_call_def no_requests_def single_row_def
      verifyProof_def Let_def)

lemma POST_bids_verifier_accepts:
  "fst (POST_bids (test_env (Returned True)) ''A1'' (Fields test_request)
          (Some ''privy-bidder'') test_state)
     = \<lparr>http_status = 200, http_body = BidBody 1 ''unsigned-transaction''\<rparr>
   \<and> bids (st_db (snd (POST_bids (test_env (Returned True)) ''A1'' (Fields test_request)
          (Some ''privy-bidder'') test_state)))
     = [\<lparr>b_id = 1, b_auction_id = ''A1'', b_bidder_id = ''u2'',
         b_commitment_hash = commitment_7, b_on_chain_id = None, b_revealed = False,
         b_amount = None, b_timestamp = 5000\<rparr>]"
  by (simp add: POST_bids_def test_env_def test_request_def test_state_def mirror_def
      auction_A1_def seller_user_def bidder_user_def commitment_7_def submitBidSchema_def
      bidRateLimit_def checkRateLimit_def limit_call_def no_requests_def single_row_def
      verifyProof_def Let_def wrapped_SOL_def buildSubmitBidTransaction_def test_chain_def
      submitBidData_def writeUInt32LE_def next_bid_id_def length_copy_into utf8_def
      split: sum.splits)

theorem POST_bids_fails_closed_witness:
  "st_db (snd (POST_bids (test_env Threw) ''A1'' (Fields test_request)
                 (Some ''privy-bidder'') test_state)) = st_db test_state
   \<and> fst (POST_bids (test_env Threw) ''A1'' (Fields test_request)
                 (Some ''privy-bidder'') test_state) = reply 400 ''Invalid proof''
   \<and> http_status (fst (POST_bids (test_env Threw) ''A1'' (Fields test_request)
                 (Some ''privy-bidder'') test_state)) \<noteq> 200
   \<and> bids (st_db (snd (POST_bids (test_env (Returned True)) ''A1'' (Fields test_request)
          (Some ''privy-bidder'') test_state))) \<noteq> bids (st_db test_state)
   \<and> env_verifyFinalProof (test_env (Returned True)) ''bid_commitment''
        (env_fromBase64 (test_env (Returned True)) (r_proof test_request))
        (r_commitmentHash test_request) = Returned True"
proof -
  have t: "env_verifyFinalProof (test_env Threw) ''bid_commitment''
             (env_fromBase64 (test_env Threw) (r_proof v)) (r_commitmentHash v) \<noteq> Returned True"
    for v
    by (simp add: test_env_def)
  have a: "st_db (snd (POST_bids (test_env Threw) ''A1'' (Fields test_request)
                 (Some ''privy-bidder'') test_state)) = st_db test_state
      \<and> http_status (fst (POST_bids (test_env Threw) ''A1'' (Fields test_request)
                 (Some ''privy-bidder'') test_state)) \<noteq> 200"
    using POST_bids_fails_closed [of "Fields test_request" "test_env Threw" "''A1''"
        "Some ''privy-bidder''" test_state] t [of test_request]
    by blast
  have b: "bids (st_db (snd (POST_bids (test_env (Returned True)) ''A1'' (Fields test_request)
          (Some ''privy-bidder'') test_state))) \<noteq> bids (st_db test_state)"
    using POST_bids_verifier_accepts by (simp add: test_state_def mirror_def)
  have c: "env_verifyFinalProof (test_env (Returned True)) ''bid_commitment''
        (env_fromBase64 (test_env (Returned True)) (r_proof test_request))
        (r_commitmentHash test_request) = Returned True"
    using POST_bids_fails_closed [of "Fields test_request" "test_env (Returned True)" "''A1''"
        "Some ''privy-bidder''" test_state] b
    by blast
  show ?thesis
    using a b c POST_bids_verifier_throws by simp
qed

end
